theory Spec2Isabelle
  imports Complex_Main "HOL-Library.Sublist"
begin

section \<open>Python values and market dicts\<close>

text \<open>
  A market is the dict the venue's client decodes from JSON. Its values are modelled by
  the JSON scalars: null, booleans, integers, floats (a finite float is the real number
  it denotes) and strings. A dict is an association list; \<open>market.get(key)\<close> is
  \<open>None\<close> for a missing key and \<open>market.get(key, d)\<close> is \<open>d\<close>.
\<close>

datatype pyval = PNone | PBool bool | PInt int | PFloat real | PStr string

type_synonym market = "(string \<times> pyval) list"

datatype error = TypeError | OverflowError | Raised string

definition dict_get :: "market \<Rightarrow> string \<Rightarrow> pyval" where
  "dict_get m k = (case map_of m k of None \<Rightarrow> PNone | Some v \<Rightarrow> v)"

definition dict_get_default :: "market \<Rightarrow> string \<Rightarrow> pyval \<Rightarrow> pyval" where
  "dict_get_default m k d = (case map_of m k of None \<Rightarrow> d | Some v \<Rightarrow> v)"

text \<open>The number a Python value denotes in a comparison; \<open>bool\<close> is a subtype of \<open>int\<close>.\<close>

fun as_number :: "pyval \<Rightarrow> real option" where
  "as_number (PBool b) = Some (if b then 1 else 0)"
| "as_number (PInt i) = Some (of_int i)"
| "as_number (PFloat r) = Some r"
| "as_number PNone = None"
| "as_number (PStr s) = None"

text \<open>\<open>v >= n\<close> for an integer \<open>n\<close>: numbers compare by value, anything else raises
  \<open>TypeError\<close>.\<close>

definition py_ge :: "pyval \<Rightarrow> int \<Rightarrow> error + bool" where
  "py_ge v n = (case as_number v of None \<Rightarrow> Inl TypeError | Some x \<Rightarrow> Inr (of_int n \<le> x))"

text \<open>\<open>a != b\<close>: numbers compare by value, strings by content, \<open>None\<close> equals only
  itself, and values of different kinds are unequal. It never raises.\<close>

fun py_ne :: "pyval \<Rightarrow> pyval \<Rightarrow> bool" where
  "py_ne PNone PNone = False"
| "py_ne (PStr s) (PStr t) = (s \<noteq> t)"
| "py_ne a b = (case (as_number a, as_number b) of (Some x, Some y) \<Rightarrow> x \<noteq> y | _ \<Rightarrow> True)"

section \<open>The bot and its trade executor\<close>

text \<open>
  \<open>KalshiArbitrageBot.__init__\<close> stores the limits read from the configuration: two in
  the trade executor, next to its \<open>auto_execute\<close> flag, and two in the bot itself. The
  field \<open>executor\<close> is the bot's \<open>trade_executor\<close>.
\<close>

record trade_executor =
  min_profit_cents :: int
  max_position_size :: int
  auto_execute :: bool

record bot =
  executor :: trade_executor
  min_profit_per_day :: real
  min_liquidity :: int

subsection \<open>Liquidity filter (bot.py, lines 58 to 81)\<close>

definition has_tradeable_liquidity :: "market \<Rightarrow> bool" where
  "has_tradeable_liquidity m =
     (let yes_bid = dict_get m ''yes_bid'';
          yes_ask = dict_get m ''yes_ask'';
          no_bid = dict_get m ''no_bid'';
          no_ask = dict_get m ''no_ask'';
          has_yes = (yes_bid \<noteq> PNone \<and> yes_ask \<noteq> PNone \<and> py_ne yes_bid yes_ask);
          has_no = (no_bid \<noteq> PNone \<and> no_ask \<noteq> PNone \<and> py_ne no_bid no_ask)
      in has_yes \<or> has_no)"

text \<open>
  The list comprehension tests the markets from left to right; \<open>and\<close> evaluates the
  liquidity comparison first, and a comparison that raises ends the whole call.
\<close>

fun filter_markets_by_liquidity :: "bot \<Rightarrow> market list \<Rightarrow> error + market list" where
  "filter_markets_by_liquidity b [] = Inr []"
| "filter_markets_by_liquidity b (m # ms) =
     (case py_ge (dict_get_default m ''liquidity'' (PInt 0)) (min_liquidity b) of
        Inl e \<Rightarrow> Inl e
      | Inr enough \<Rightarrow>
          (case filter_markets_by_liquidity b ms of
             Inl e \<Rightarrow> Inl e
           | Inr rest \<Rightarrow> Inr (if enough \<and> has_tradeable_liquidity m then m # rest else rest)))"

section \<open>Configuration (config.py)\<close>

text \<open>
  The process environment, as \<open>os.getenv\<close> reads it once \<open>load_dotenv()\<close> has run, is an
  association list from names to strings. Python's \<open>int(raw)\<close> and \<open>float(raw)\<close> are
  parameters: they give \<open>None\<close> where the built-in raises \<open>ValueError\<close>.
\<close>

type_synonym environ = "(string \<times> string) list"

definition getenv :: "environ \<Rightarrow> string \<Rightarrow> string option" where
  "getenv env key = map_of env key"

definition int_env :: "(string \<Rightarrow> int option) \<Rightarrow> environ \<Rightarrow> string \<Rightarrow> int \<Rightarrow> int" where
  "int_env py_int env key dflt =
     (case getenv env key of
        None \<Rightarrow> dflt
      | Some raw \<Rightarrow> (case py_int raw of Some v \<Rightarrow> v | None \<Rightarrow> dflt))"

definition float_env :: "(string \<Rightarrow> real option) \<Rightarrow> environ \<Rightarrow> string \<Rightarrow> real \<Rightarrow> real" where
  "float_env py_float env key dflt =
     (case getenv env key of
        None \<Rightarrow> dflt
      | Some raw \<Rightarrow> (case py_float raw of Some v \<Rightarrow> v | None \<Rightarrow> dflt))"

definition get_min_profit_cents :: "(string \<Rightarrow> int option) \<Rightarrow> environ \<Rightarrow> int" where
  "get_min_profit_cents py_int env = int_env py_int env ''MIN_PROFIT_CENTS'' 2"

definition get_max_position_size :: "(string \<Rightarrow> int option) \<Rightarrow> environ \<Rightarrow> int" where
  "get_max_position_size py_int env = int_env py_int env ''MAX_POSITION_SIZE'' 1000"

definition get_min_profit_per_day :: "(string \<Rightarrow> real option) \<Rightarrow> environ \<Rightarrow> real" where
  "get_min_profit_per_day py_float env = float_env py_float env ''MIN_PROFIT_PER_DAY'' (1 / 10)"

definition get_min_liquidity :: "(string \<Rightarrow> int option) \<Rightarrow> environ \<Rightarrow> int" where
  "get_min_liquidity py_int env = int_env py_int env ''MIN_LIQUIDITY'' 10000"

definition get_api_min_interval :: "(string \<Rightarrow> real option) \<Rightarrow> environ \<Rightarrow> real" where
  "get_api_min_interval py_float env = float_env py_float env ''API_MIN_INTERVAL'' (1 / 10)"

text \<open>\<open>KalshiArbitrageBot.__init__\<close> (bot.py, lines 40 to 56).\<close>

definition init_bot ::
  "(string \<Rightarrow> int option) \<Rightarrow> (string \<Rightarrow> real option) \<Rightarrow> environ \<Rightarrow> bool \<Rightarrow> bot" where
  "init_bot py_int py_float env auto_execute_trades =
     \<lparr>executor =
        \<lparr>min_profit_cents = get_min_profit_cents py_int env,
         max_position_size = get_max_position_size py_int env,
         auto_execute = auto_execute_trades\<rparr>,
      min_profit_per_day = get_min_profit_per_day py_float env,
      min_liquidity = get_min_liquidity py_int env\<rparr>"

section \<open>Opportunities and the collaborators of the bot\<close>

text \<open>
  \<open>ArbitrageOpportunity\<close> and \<open>TradeOpportunity\<close> are declared in the modules
  \<open>opportunity_analyzer\<close> and \<open>execution_engine\<close>; the records keep the market identity
  and the figures the scans read. Amounts are floats, read as the real numbers they
  denote.
\<close>

record arbitrage_opportunity =
  arb_market_ticker :: string
  arb_net_profit :: real
  days_to_expiration :: real
  profit_per_day :: real

record trade_opportunity =
  market_ticker :: string
  side :: string
  quantity :: int
  net_profit :: real

text \<open>
  The client (\<open>KalshiClient.get_markets\<close>), the analyzer
  (\<open>ArbitrageAnalyzer.find_opportunities\<close>) and the executor's two methods
  (\<open>TradeExecutor.scan_and_execute\<close>, \<open>TradeExecutor.execute_trade\<close>) are collaborators
  from other modules. Each is a parameter: a function of its arguments and of
  the state \<open>'w\<close> of everything outside the bot (venue, order gateway, the executor's
  own bookkeeping), returning its result and the next such state. A collaborator that
  raises returns \<open>Inl\<close>. The executor's methods read the executor's three fields; the
  writes to \<open>auto_execute\<close> are the ones bot.py makes.
\<close>

record 'w env =
  get_markets :: "int \<Rightarrow> 'w \<Rightarrow> market list \<times> 'w"
  find_opportunities :: "market list \<Rightarrow> 'w \<Rightarrow> (error + arbitrage_opportunity list) \<times> 'w"
  scan_and_execute ::
    "trade_executor \<Rightarrow> market list \<Rightarrow> int \<Rightarrow> 'w \<Rightarrow> (error + trade_opportunity list) \<times> 'w"
  execute_trade ::
    "trade_executor \<Rightarrow> trade_opportunity \<Rightarrow> 'w \<Rightarrow> (error + bool \<times> string) \<times> 'w"

text \<open>
  What a scan does besides returning: the calls it makes to its collaborators and its
  writes to the executor's \<open>auto_execute\<close> field, in order. \<open>ScanAndExecute\<close> records
  the value the field holds when the method is entered.
\<close>

datatype event =
    GetMarkets int
  | FindOpportunities "market list"
  | SetAutoExecute bool
  | ScanAndExecute bool "market list" int
  | ExecuteTrade trade_opportunity

fun flag_writes :: "event list \<Rightarrow> bool list" where
  "flag_writes [] = []"
| "flag_writes (SetAutoExecute v # tr) = v # flag_writes tr"
| "flag_writes (_ # tr) = flag_writes tr"

text \<open>The values the \<open>auto_execute\<close> field takes during a call: the one at entry, then
  each value written.\<close>

definition flag_history :: "bot \<Rightarrow> event list \<Rightarrow> bool list" where
  "flag_history b tr = auto_execute (executor b) # flag_writes tr"

fun attempted :: "event list \<Rightarrow> trade_opportunity list" where
  "attempted [] = []"
| "attempted (ExecuteTrade opp # tr) = opp # attempted tr"
| "attempted (_ # tr) = attempted tr"

fun detector_inputs :: "event list \<Rightarrow> market list list" where
  "detector_inputs [] = []"
| "detector_inputs (FindOpportunities ms # tr) = ms # detector_inputs tr"
| "detector_inputs (ScanAndExecute f ms l # tr) = ms # detector_inputs tr"
| "detector_inputs (_ # tr) = detector_inputs tr"

section \<open>The scans (bot.py, lines 83 to 168)\<close>

definition fetch_and_filter_markets ::
  "'w env \<Rightarrow> bot \<Rightarrow> int \<Rightarrow> 'w \<Rightarrow> (error + market list) \<times> 'w \<times> event list" where
  "fetch_and_filter_markets env b limit w =
     (case get_markets env limit w of
        (markets, w1) \<Rightarrow>
          if markets = [] then (Inr [], w1, [GetMarkets limit])
          else (filter_markets_by_liquidity b markets, w1, [GetMarkets limit]))"

definition scan_arbitrage_opportunities ::
  "'w env \<Rightarrow> bot \<Rightarrow> int \<Rightarrow> 'w
   \<Rightarrow> (error + arbitrage_opportunity list) \<times> bot \<times> 'w \<times> event list" where
  "scan_arbitrage_opportunities env b limit w =
     (case fetch_and_filter_markets env b limit w of
        (Inl e, w1, tr) \<Rightarrow> (Inl e, b, w1, tr)
      | (Inr markets, w1, tr) \<Rightarrow>
          if markets = [] then (Inr [], b, w1, tr)
          else
            (case find_opportunities env markets w1 of
               (Inl e, w2) \<Rightarrow> (Inl e, b, w2, tr @ [FindOpportunities markets])
             | (Inr opportunities, w2) \<Rightarrow>
                 (Inr (filter (\<lambda>opp. min_profit_per_day b \<le> profit_per_day opp) opportunities),
                  b, w2, tr @ [FindOpportunities markets])))"

text \<open>\<open>list.sort(key=lambda x: x.net_profit, reverse=True)\<close>: a stable sort into
  descending order, equal keys keeping their order.\<close>

definition sort_by_net_profit_desc :: "trade_opportunity list \<Rightarrow> trade_opportunity list" where
  "sort_by_net_profit_desc opps = sort_key (\<lambda>x. - net_profit x) opps"

definition set_auto_execute :: "bool \<Rightarrow> bot \<Rightarrow> bot" where
  "set_auto_execute v b = b\<lparr>executor := (executor b)\<lparr>auto_execute := v\<rparr>\<rparr>"

text \<open>The \<open>finally\<close> clause restores the flag whether \<open>scan_and_execute\<close> returns or
  raises.\<close>

definition scan_immediate_trades ::
  "'w env \<Rightarrow> bot \<Rightarrow> int \<Rightarrow> bool \<Rightarrow> 'w
   \<Rightarrow> (error + trade_opportunity list) \<times> bot \<times> 'w \<times> event list" where
  "scan_immediate_trades env b limit auto_exec w =
     (case fetch_and_filter_markets env b limit w of
        (Inl e, w1, tr) \<Rightarrow> (Inl e, b, w1, tr)
      | (Inr markets, w1, tr) \<Rightarrow>
          if markets = [] then (Inr [], b, w1, tr)
          else
            (let original_auto = auto_execute (executor b);
                 b1 = set_auto_execute auto_exec b;
                 tr1 = tr @ [SetAutoExecute auto_exec,
                             ScanAndExecute (auto_execute (executor b1)) markets limit,
                             SetAutoExecute original_auto]
             in case scan_and_execute env (executor b1) markets limit w1 of
                  (Inl e, w2) \<Rightarrow> (Inl e, set_auto_execute original_auto b1, w2, tr1)
                | (Inr opportunities, w2) \<Rightarrow>
                    (Inr (sort_by_net_profit_desc opportunities),
                     set_auto_execute original_auto b1, w2, tr1)))"

text \<open>The loop of lines 162 to 166: every opportunity of the list is passed to
  \<open>execute_trade\<close>, a success is counted, and only an exception leaves the loop.\<close>

fun execute_profitable ::
  "'w env \<Rightarrow> trade_executor \<Rightarrow> trade_opportunity list \<Rightarrow> nat \<Rightarrow> 'w
   \<Rightarrow> (error + nat) \<times> 'w \<times> event list" where
  "execute_profitable env ex [] executed_count w = (Inr executed_count, w, [])"
| "execute_profitable env ex (trade_opp # rest) executed_count w =
     (case execute_trade env ex trade_opp w of
        (Inl e, w1) \<Rightarrow> (Inl e, w1, [ExecuteTrade trade_opp])
      | (Inr (success, message), w1) \<Rightarrow>
          (case execute_profitable env ex rest
                  (if success then executed_count + 1 else executed_count) w1 of
             (r, w2, tr) \<Rightarrow> (r, w2, ExecuteTrade trade_opp # tr)))"

definition scan_all_opportunities ::
  "'w env \<Rightarrow> bot \<Rightarrow> int \<Rightarrow> bool \<Rightarrow> 'w
   \<Rightarrow> (error + arbitrage_opportunity list \<times> trade_opportunity list \<times> nat)
      \<times> bot \<times> 'w \<times> event list" where
  "scan_all_opportunities env b limit auto_exec w =
     (case fetch_and_filter_markets env b limit w of
        (Inl e, w1, tr) \<Rightarrow> (Inl e, b, w1, tr)
      | (Inr markets, w1, tr) \<Rightarrow>
          if markets = [] then (Inr ([], [], 0), b, w1, tr)
          else
            (case find_opportunities env markets w1 of
               (Inl e, w2) \<Rightarrow> (Inl e, b, w2, tr @ [FindOpportunities markets])
             | (Inr found, w2) \<Rightarrow>
                 (let arbitrage_opps =
                        filter (\<lambda>opp. min_profit_per_day b \<le> profit_per_day opp) found;
                      original_auto = auto_execute (executor b);
                      b1 = set_auto_execute False b;
                      b2 = set_auto_execute original_auto b1;
                      tr1 = tr @ [FindOpportunities markets,
                                  SetAutoExecute False,
                                  ScanAndExecute (auto_execute (executor b1)) markets limit,
                                  SetAutoExecute original_auto]
                  in case scan_and_execute env (executor b1) markets limit w2 of
                       (Inl e, w3) \<Rightarrow> (Inl e, b2, w3, tr1)
                     | (Inr opps, w3) \<Rightarrow>
                         (let trade_opps = sort_by_net_profit_desc opps
                          in if auto_exec \<and> trade_opps \<noteq> [] then
                               (case execute_profitable env (executor b2)
                                       (filter (\<lambda>opp. 0 < net_profit opp) trade_opps) 0 w3 of
                                  (Inl e, w4, tr2) \<Rightarrow> (Inl e, b2, w4, tr1 @ tr2)
                                | (Inr executed_count, w4, tr2) \<Rightarrow>
                                    (Inr (arbitrage_opps, trade_opps, executed_count),
                                     b2, w4, tr1 @ tr2))
                             else (Inr (arbitrage_opps, trade_opps, 0), b2, w3, tr1)))))"

section \<open>The settings handler (cli.py, lines 159 to 178)\<close>

text \<open>
  Lines 171 and 172: \<open>bot.min_liquidity = int(min_liquidity_dollars * 100)\<close>. The
  product is a double, taken by the interpreter; the handler's argument here is that
  double, \<open>None\<close> when it is infinite. \<open>int(x)\<close> of a finite float truncates towards
  zero, and of an infinite one raises \<open>OverflowError\<close> before anything is assigned. The
  prompt, the prints and the menu shown again afterwards are left out.
\<close>

definition py_int_of_float :: "real \<Rightarrow> int" where
  "py_int_of_float x = (if 0 \<le> x then \<lfloor>x\<rfloor> else \<lceil>x\<rceil>)"

definition handle_configure_settings :: "bot \<Rightarrow> real option \<Rightarrow> error + bot" where
  "handle_configure_settings b dollars_times_100 =
     (case dollars_times_100 of
        None \<Rightarrow> Inl OverflowError
      | Some product \<Rightarrow> Inr (b\<lparr>min_liquidity := py_int_of_float product\<rparr>))"

text \<open>The operations that take a constructed bot: the three scans and the handler. An
  operation that raises leaves the bot as the operation left it.\<close>

datatype operation =
    ScanArbitrage int
  | ScanImmediate int bool
  | ScanAll int bool
  | ConfigureSettings "real option"

fun run_operation :: "'w env \<Rightarrow> operation \<Rightarrow> bot \<times> 'w \<Rightarrow> bot \<times> 'w" where
  "run_operation env (ScanArbitrage limit) (b, w) =
     (case scan_arbitrage_opportunities env b limit w of (r, b', w', tr) \<Rightarrow> (b', w'))"
| "run_operation env (ScanImmediate limit a) (b, w) =
     (case scan_immediate_trades env b limit a w of (r, b', w', tr) \<Rightarrow> (b', w'))"
| "run_operation env (ScanAll limit a) (b, w) =
     (case scan_all_opportunities env b limit a w of (r, b', w', tr) \<Rightarrow> (b', w'))"
| "run_operation env (ConfigureSettings dollars_times_100) (b, w) =
     (case handle_configure_settings b dollars_times_100 of
        Inl e \<Rightarrow> (b, w)
      | Inr b' \<Rightarrow> (b', w))"

text \<open>A session: operations applied one after the other to the same bot. (The menu
  of cli.py builds a bot for each action; a program that holds a bot can run any such
  sequence.)\<close>

fun run_operations :: "'w env \<Rightarrow> operation list \<Rightarrow> bot \<times> 'w \<Rightarrow> bot \<times> 'w" where
  "run_operations env [] s = s"
| "run_operations env (op # ops) s = run_operations env ops (run_operation env op s)"

fun is_configure :: "operation \<Rightarrow> bool" where
  "is_configure (ConfigureSettings dollars_times_100) = True"
| "is_configure _ = False"

text \<open>The events of a scan's outcome.\<close>

definition events_of :: "'r \<times> bot \<times> 'w \<times> event list \<Rightarrow> event list" where
  "events_of outcome = snd (snd (snd outcome))"

section \<open>Example inputs\<close>

text \<open>A bot built from an environment that sets none of the limits, with auto-execute
  off.\<close>

definition example_bot :: bot where
  "example_bot = init_bot (\<lambda>raw. None) (\<lambda>raw. None) [(''KALSHI_API_KEY'', ''key-id'')] False"

text \<open>The bot the menu builds once the user has asked for automatic execution.\<close>

definition example_auto_bot :: bot where
  "example_auto_bot =
     init_bot (\<lambda>raw. None) (\<lambda>raw. None) [(''KALSHI_API_KEY'', ''key-id'')] True"

text \<open>Markets: a liquid one with a two-sided yes quote, one whose liquidity is JSON null,
  one without a liquidity field, one whose two sides both quote bid equal to ask, and one
  below the default liquidity threshold.\<close>

definition market_liquid :: market where
  "market_liquid =
     [(''ticker'', PStr ''LIQUID''), (''liquidity'', PInt 20000),
      (''yes_bid'', PInt 40), (''yes_ask'', PInt 42)]"

definition market_null :: market where
  "market_null =
     [(''ticker'', PStr ''NULL''), (''liquidity'', PNone),
      (''yes_bid'', PInt 40), (''yes_ask'', PInt 42)]"

definition market_missing :: market where
  "market_missing =
     [(''ticker'', PStr ''MISSING''), (''yes_bid'', PInt 40), (''yes_ask'', PInt 42)]"

definition market_flat :: market where
  "market_flat =
     [(''ticker'', PStr ''FLAT''), (''liquidity'', PInt 50000),
      (''yes_bid'', PInt 50), (''yes_ask'', PInt 50),
      (''no_bid'', PInt 50), (''no_ask'', PInt 50)]"

definition market_thin :: market where
  "market_thin =
     [(''ticker'', PStr ''THIN''), (''liquidity'', PInt 500),
      (''yes_bid'', PInt 40), (''yes_ask'', PInt 42)]"

definition arb_good :: arbitrage_opportunity where
  "arb_good = \<lparr>arb_market_ticker = ''LIQUID'', arb_net_profit = 1, days_to_expiration = 2,
                profit_per_day = 1 / 2\<rparr>"

definition arb_slow :: arbitrage_opportunity where
  "arb_slow = \<lparr>arb_market_ticker = ''LIQUID'', arb_net_profit = 1, days_to_expiration = 20,
                profit_per_day = 1 / 20\<rparr>"

definition trade_a :: trade_opportunity where
  "trade_a = \<lparr>market_ticker = ''A'', side = ''yes'', quantity = 10, net_profit = 1\<rparr>"

definition trade_b :: trade_opportunity where
  "trade_b = \<lparr>market_ticker = ''B'', side = ''yes'', quantity = 10, net_profit = 3\<rparr>"

definition trade_c :: trade_opportunity where
  "trade_c = \<lparr>market_ticker = ''C'', side = ''no'', quantity = 5, net_profit = 0\<rparr>"

definition trade_d :: trade_opportunity where
  "trade_d = \<lparr>market_ticker = ''D'', side = ''no'', quantity = 10, net_profit = 1\<rparr>"

text \<open>
  Collaborators for the examples. The outside state counts the orders the gateway has
  seen. The client returns three markets; the analyzer reports two opportunities, one
  below the default profit-per-day threshold; the spread detector reports four trades,
  two of them with the same net profit; \<open>execute_trade\<close> reports the order for
  market B as rejected, \<open>(False, message)\<close>, and the others as executed.
\<close>

definition example_env :: "nat env" where
  "example_env =
     \<lparr>get_markets = (\<lambda>limit w. ([market_liquid, market_thin, market_flat], w)),
      find_opportunities = (\<lambda>markets w. (Inr [arb_good, arb_slow], w)),
      scan_and_execute = (\<lambda>ex markets limit w. (Inr [trade_a, trade_b, trade_c, trade_d], w)),
      execute_trade = (\<lambda>ex opp w.
         if market_ticker opp = ''B'' then (Inr (False, ''order rejected''), w + 1)
         else (Inr (True, ''executed''), w + 1))\<rparr>"

text \<open>The same collaborators with a gateway that raises on the order for market A.\<close>

definition raising_env :: "nat env" where
  "raising_env =
     example_env\<lparr>execute_trade := (\<lambda>ex opp w.
         if market_ticker opp = ''A'' then (Inl (Raised ''connection lost''), w + 1)
         else (Inr (True, ''executed''), w + 1))\<rparr>"

text \<open>A client whose request failed: it returns the empty sequence.\<close>

definition failing_env :: "nat env" where
  "failing_env = example_env\<lparr>get_markets := (\<lambda>limit w. ([], w))\<rparr>"

section \<open>Auxiliary facts\<close>

lemma filter_markets_by_liquidity_Inr:
  "filter_markets_by_liquidity b ms = Inr r \<Longrightarrow>
   r = filter (\<lambda>m. py_ge (dict_get_default m ''liquidity'' (PInt 0)) (min_liquidity b) = Inr True
                     \<and> has_tradeable_liquidity m) ms"
  by (induction ms arbitrary: r) (auto split: sum.splits if_splits)

lemma filter_markets_by_liquidity_numeric:
  "\<forall>m \<in> set ms. as_number (dict_get_default m ''liquidity'' (PInt 0)) \<noteq> None \<Longrightarrow>
   \<exists>r. filter_markets_by_liquidity b ms = Inr r"
  by (induction ms) (auto simp: py_ge_def split: option.splits)


lemma fetch_Inr:
  "fetch_and_filter_markets env b limit w = (Inr ms, w1, tr) \<Longrightarrow>
     tr = [GetMarkets limit] \<and>
     ms = filter (\<lambda>m. py_ge (dict_get_default m ''liquidity'' (PInt 0)) (min_liquidity b) = Inr True
                     \<and> has_tradeable_liquidity m) (fst (get_markets env limit w))"
  by (auto simp: fetch_and_filter_markets_def  split: prod.splits if_splits dest: filter_markets_by_liquidity_Inr)

lemma set_auto_execute_restore [simp]:
  "set_auto_execute (auto_execute (executor b)) (set_auto_execute v b) = b"
  by (simp add: set_auto_execute_def)

lemma auto_execute_set [simp]: "auto_execute (executor (set_auto_execute v b)) = v"
  by (simp add: set_auto_execute_def)

lemma execute_profitable_attempted:
  "execute_profitable env ex opps n w = (r, w', tr) \<Longrightarrow>
     prefix (attempted tr) opps \<and> flag_writes tr = [] \<and> detector_inputs tr = [] \<and>
     (\<forall>k. r = Inr k \<longrightarrow> attempted tr = opps \<and> n \<le> k \<and> k \<le> n + length opps) \<and>
     (\<forall>e. r = Inl e \<longrightarrow> attempted tr \<noteq> [] \<and>
         (\<exists>w0 w1. execute_trade env ex (last (attempted tr)) w0 = (Inl e, w1)))"
proof (induction opps arbitrary: n w r w' tr)
  case Nil
  then show ?case by auto
next
  case (Cons opp rest)
  show ?case
  proof (cases "execute_trade env ex opp w")
    case (Pair res w1)
    show ?thesis
    proof (cases res)
      case (Inl e)
      with Pair Cons.prems show ?thesis by fastforce
    next
      case (Inr sm)
      obtain success message where sm: "sm = (success, message)" by (cases sm)
      obtain r2 w2 tr2 where rec:
        "execute_profitable env ex rest (if success then n + 1 else n) w1 = (r2, w2, tr2)"
        by (cases "execute_profitable env ex rest (if success then n + 1 else n) w1") auto
      from Cons.prems Pair Inr sm rec have eq: "r = r2" "w' = w2" "tr = ExecuteTrade opp # tr2"
        by auto
      from Cons.IH [OF rec] eq show ?thesis
        by (auto split: if_splits)
    qed
  qed
qed


lemma attempted_append [simp]: "attempted (xs @ ys) = attempted xs @ attempted ys"
  by (induction xs rule: attempted.induct) auto

lemma flag_writes_append [simp]: "flag_writes (xs @ ys) = flag_writes xs @ flag_writes ys"
  by (induction xs rule: flag_writes.induct) auto

lemma detector_inputs_append [simp]:
  "detector_inputs (xs @ ys) = detector_inputs xs @ detector_inputs ys"
  by (induction xs rule: detector_inputs.induct) auto

lemma execute_profitable_no_scan:
  "execute_profitable env ex opps n w = (r, w', tr) \<Longrightarrow> ScanAndExecute f ms l \<notin> set tr"
proof (induction opps arbitrary: n w r w' tr)
  case Nil
  then show ?case by auto
next
  case (Cons opp rest)
  then show ?case
    by (auto split: prod.splits sum.splits)
qed

lemma scan_immediate_trades_frame:
  assumes "scan_immediate_trades env b limit a w = (res, b', w', tr)"
  shows "b' = b"
    and "flag_writes tr = [] \<or> flag_writes tr = [a, auto_execute (executor b)]"
    and "ScanAndExecute f ms l \<in> set tr \<Longrightarrow> f = a"
    and "attempted tr = []"
    and "ms \<in> set (detector_inputs tr) \<Longrightarrow>
           filter_markets_by_liquidity b (fst (get_markets env limit w)) = Inr ms"
  using assms
  by (auto simp: scan_immediate_trades_def fetch_and_filter_markets_def Let_def
      split: prod.splits sum.splits if_splits)

lemma scan_arbitrage_frame:
  assumes "scan_arbitrage_opportunities env b limit w = (res, b', w', tr)"
  shows "b' = b"
    and "flag_writes tr = []"
    and "attempted tr = []"
    and "ms \<in> set (detector_inputs tr) \<Longrightarrow>
           filter_markets_by_liquidity b (fst (get_markets env limit w)) = Inr ms"
  using assms
  by (auto simp: scan_arbitrage_opportunities_def fetch_and_filter_markets_def Let_def
      split: prod.splits sum.splits if_splits)

lemma scan_all_frame:
  assumes "scan_all_opportunities env b limit a w = (res, b', w', tr)"
  shows "b' = b"
    and "flag_writes tr = [] \<or> flag_writes tr = [False, auto_execute (executor b)]"
    and "ScanAndExecute f ms l \<in> set tr \<Longrightarrow> \<not> f"
    and "ms \<in> set (detector_inputs tr) \<Longrightarrow>
           filter_markets_by_liquidity b (fst (get_markets env limit w)) = Inr ms"
  using assms
  by (auto simp: scan_all_opportunities_def fetch_and_filter_markets_def Let_def
      split: prod.splits sum.splits if_splits
      dest: execute_profitable_attempted execute_profitable_no_scan)

lemma scan_arbitrage_Inr:
  assumes "scan_arbitrage_opportunities env b limit w = (Inr arbs, b', w', tr)"
  shows "arbs = [] \<or> (\<exists>ms w1 found w2. find_opportunities env ms w1 = (Inr found, w2) \<and>
            arbs = filter (\<lambda>opp. min_profit_per_day b \<le> profit_per_day opp) found)"
proof (cases "fetch_and_filter_markets env b limit w")
  case (fields r w1 tr0)
  show ?thesis
  proof (cases r)
    case (Inl e)
    with fields assms show ?thesis by (simp add: scan_arbitrage_opportunities_def)
  next
    case (Inr ms)
    show ?thesis
    proof (cases "ms = []")
      case True
      with Inr fields assms show ?thesis by (simp add: scan_arbitrage_opportunities_def)
    next
      case False
      obtain r2 w2 where f: "find_opportunities env ms w1 = (r2, w2)"
        by (cases "find_opportunities env ms w1")
      with False Inr fields assms obtain found where "r2 = Inr found"
        "arbs = filter (\<lambda>opp. min_profit_per_day b \<le> profit_per_day opp) found"
        by (cases r2) (auto simp: scan_arbitrage_opportunities_def)
      with f show ?thesis by blast
    qed
  qed
qed

lemma scan_all_Inr_arbs:
  assumes "scan_all_opportunities env b limit a w = (Inr (arbs, trades, n), b', w', tr)"
  shows "arbs = [] \<or> (\<exists>ms w1 found w2. find_opportunities env ms w1 = (Inr found, w2) \<and>
            arbs = filter (\<lambda>opp. min_profit_per_day b \<le> profit_per_day opp) found)"
proof (cases "fetch_and_filter_markets env b limit w")
  case (fields r w1 tr0)
  show ?thesis
  proof (cases r)
    case (Inl e)
    with fields assms show ?thesis by (simp add: scan_all_opportunities_def)
  next
    case (Inr ms)
    show ?thesis
    proof (cases "ms = []")
      case True
      with Inr fields assms show ?thesis by (simp add: scan_all_opportunities_def)
    next
      case False
      obtain r2 w2 where f: "find_opportunities env ms w1 = (r2, w2)"
        by (cases "find_opportunities env ms w1")
      with False Inr fields assms obtain found where "r2 = Inr found"
        "arbs = filter (\<lambda>opp. min_profit_per_day b \<le> profit_per_day opp) found"
        by (cases r2)
          (auto simp: scan_all_opportunities_def Let_def split: prod.splits sum.splits if_splits)
      with f show ?thesis by blast
    qed
  qed
qed


text \<open>The example scans, evaluated.\<close>

lemmas example_defs = example_bot_def init_bot_def get_min_profit_cents_def
  get_max_position_size_def get_min_profit_per_day_def get_min_liquidity_def int_env_def
  float_env_def getenv_def example_env_def raising_env_def failing_env_def
  market_liquid_def market_null_def market_missing_def market_flat_def market_thin_def
  arb_good_def arb_slow_def trade_a_def trade_b_def trade_c_def trade_d_def

lemmas scan_defs = scan_all_opportunities_def scan_immediate_trades_def
  scan_arbitrage_opportunities_def fetch_and_filter_markets_def py_ge_def dict_get_def
  dict_get_default_def has_tradeable_liquidity_def sort_by_net_profit_desc_def
  set_auto_execute_def

lemma example_scan_all_auto:
  "scan_all_opportunities example_env example_bot 100 True 0 =
     (Inr ([arb_good], [trade_b, trade_a, trade_d, trade_c], 2), example_bot, 3,
      [GetMarkets 100, FindOpportunities [market_liquid], SetAutoExecute False,
       ScanAndExecute False [market_liquid] 100, SetAutoExecute False,
       ExecuteTrade trade_b, ExecuteTrade trade_a, ExecuteTrade trade_d])"
  by (simp add: example_defs scan_defs)


lemma example_scan_all_manual:
  "scan_all_opportunities example_env example_bot 100 False 0 =
     (Inr ([arb_good], [trade_b, trade_a, trade_d, trade_c], 0), example_bot, 0,
      [GetMarkets 100, FindOpportunities [market_liquid], SetAutoExecute False,
       ScanAndExecute False [market_liquid] 100, SetAutoExecute False])"
  by (simp add: example_defs scan_defs)

lemma example_scan_immediate:
  "scan_immediate_trades example_env example_bot 100 True 0 =
     (Inr [trade_b, trade_a, trade_d, trade_c], example_bot, 0,
      [GetMarkets 100, SetAutoExecute True,
       ScanAndExecute True [market_liquid] 100, SetAutoExecute False])"
  by (simp add: example_defs scan_defs)

lemma example_scan_arbitrage:
  "scan_arbitrage_opportunities example_env example_bot 100 0 =
     (Inr [arb_good], example_bot, 0, [GetMarkets 100, FindOpportunities [market_liquid]])"
  by (simp add: example_defs scan_defs)

lemma run_operation_limits:
  assumes "run_operation env op (b, w) = (b', w')"
  shows "min_profit_cents (executor b') = min_profit_cents (executor b)
       \<and> max_position_size (executor b') = max_position_size (executor b)
       \<and> min_profit_per_day b' = min_profit_per_day b
       \<and> auto_execute (executor b') = auto_execute (executor b)
       \<and> (\<not> is_configure op \<longrightarrow> min_liquidity b' = min_liquidity b)"
proof (cases op)
  case (ScanArbitrage limit)
  with assms show ?thesis
    by (auto split: prod.splits dest: scan_arbitrage_frame(1))
next
  case (ScanImmediate limit a)
  with assms show ?thesis
    by (auto split: prod.splits dest: scan_immediate_trades_frame(1))
next
  case (ScanAll limit a)
  with assms show ?thesis
    by (auto split: prod.splits dest: scan_all_frame(1))
next
  case (ConfigureSettings dollars_times_100)
  with assms show ?thesis
    by (auto simp: handle_configure_settings_def split: option.splits)
qed

lemma run_operations_limits:
  "run_operations env ops (b, w) = (b', w') \<Longrightarrow>
     min_profit_cents (executor b') = min_profit_cents (executor b)
       \<and> max_position_size (executor b') = max_position_size (executor b)
       \<and> min_profit_per_day b' = min_profit_per_day b
       \<and> auto_execute (executor b') = auto_execute (executor b)
       \<and> ((\<forall>op \<in> set ops. \<not> is_configure op) \<longrightarrow> min_liquidity b' = min_liquidity b)"
proof (induction ops arbitrary: b w)
  case Nil
  then show ?case by simp
next
  case (Cons op ops)
  obtain b1 w1 where step: "run_operation env op (b, w) = (b1, w1)"
    by (cases "run_operation env op (b, w)")
  with Cons.prems have rest: "run_operations env ops (b1, w1) = (b', w')" by simp
  from Cons.IH [OF rest] run_operation_limits [OF step] show ?case by auto
qed

lemma example_session:
  "run_operations example_env [ScanAll 100 True, ScanImmediate 100 True, ScanArbitrage 100]
      (example_bot, 0) = (example_bot, 3)"
  by (simp add: example_scan_all_auto)
     (simp add: example_defs scan_defs)

lemma example_bot_limits:
  "min_profit_cents (executor example_bot) = 2"
  "max_position_size (executor example_bot) = 1000"
  "min_profit_per_day example_bot = 1 / 10"
  "min_liquidity example_bot = 10000"
  "auto_execute (executor example_bot) = False"
  by (simp_all add: example_bot_def init_bot_def get_min_profit_cents_def
      get_max_position_size_def get_min_profit_per_day_def get_min_liquidity_def
      int_env_def float_env_def getenv_def)

lemma detector_inputs_filtered:
  "ms \<in> set (detector_inputs (events_of (scan_all_opportunities env b limit a w))) \<or>
   ms \<in> set (detector_inputs (events_of (scan_immediate_trades env b limit a w))) \<or>
   ms \<in> set (detector_inputs (events_of (scan_arbitrage_opportunities env b limit w))) \<Longrightarrow>
   filter_markets_by_liquidity b (fst (get_markets env limit w)) = Inr ms"
proof (elim disjE)
  assume h: "ms \<in> set (detector_inputs (events_of (scan_all_opportunities env b limit a w)))"
  obtain res b' w' tr where run: "scan_all_opportunities env b limit a w = (res, b', w', tr)"
    by (cases "scan_all_opportunities env b limit a w")
  with h scan_all_frame(4) [OF run] show ?thesis by (simp add: events_of_def)
next
  assume h: "ms \<in> set (detector_inputs (events_of (scan_immediate_trades env b limit a w)))"
  obtain res b' w' tr where run: "scan_immediate_trades env b limit a w = (res, b', w', tr)"
    by (cases "scan_immediate_trades env b limit a w")
  with h scan_immediate_trades_frame(5) [OF run] show ?thesis by (simp add: events_of_def)
next
  assume h: "ms \<in> set (detector_inputs (events_of (scan_arbitrage_opportunities env b limit w)))"
  obtain res b' w' tr where run: "scan_arbitrage_opportunities env b limit w = (res, b', w', tr)"
    by (cases "scan_arbitrage_opportunities env b limit w")
  with h scan_arbitrage_frame(4) [OF run] show ?thesis by (simp add: events_of_def)
qed

lemma py_ge_True_iff:
  "py_ge v n = Inr True \<longleftrightarrow> (\<exists>x. as_number v = Some x \<and> of_int n \<le> x)"
  by (auto simp: py_ge_def split: option.splits)


lemma example_filter:
  "filter_markets_by_liquidity example_bot
      [market_missing, market_liquid, market_flat, market_thin] = Inr [market_liquid]"
  by (simp add: example_bot_limits py_ge_def dict_get_def dict_get_default_def
      has_tradeable_liquidity_def market_liquid_def market_missing_def market_flat_def
      market_thin_def)


lemma example_filter_fetched:
  "filter_markets_by_liquidity example_bot [market_liquid, market_thin, market_flat]
     = Inr [market_liquid]"
  by (simp add: example_bot_limits py_ge_def dict_get_def dict_get_default_def
      has_tradeable_liquidity_def market_liquid_def market_flat_def market_thin_def)

lemma example_auto_bot_limits:
  "min_liquidity example_auto_bot = 10000"
  "min_profit_per_day example_auto_bot = 1 / 10"
  "auto_execute (executor example_auto_bot) = True"
  by (simp_all add: example_auto_bot_def init_bot_def get_min_profit_per_day_def
      get_min_liquidity_def int_env_def float_env_def getenv_def)

lemma example_scan_all_auto_bot:
  "scan_all_opportunities example_env example_auto_bot 100 True 0 =
     (Inr ([arb_good], [trade_b, trade_a, trade_d, trade_c], 2), example_auto_bot, 3,
      [GetMarkets 100, FindOpportunities [market_liquid], SetAutoExecute False,
       ScanAndExecute False [market_liquid] 100, SetAutoExecute True,
       ExecuteTrade trade_b, ExecuteTrade trade_a, ExecuteTrade trade_d])"
  by (simp add: example_auto_bot_def example_defs scan_defs)

lemma example_scan_all_manual_auto_bot:
  "scan_all_opportunities example_env example_auto_bot 100 False 0 =
     (Inr ([arb_good], [trade_b, trade_a, trade_d, trade_c], 0), example_auto_bot, 0,
      [GetMarkets 100, FindOpportunities [market_liquid], SetAutoExecute False,
       ScanAndExecute False [market_liquid] 100, SetAutoExecute True])"
  by (simp add: example_auto_bot_def example_defs scan_defs)


section \<open>The auto-execute flag\<close>

text \<open>
  Claim C1, as amended. The scans take auto-execute mode as a parameter of the call, and
  implement it by writing the shared executor's \<open>auto_execute\<close> field:
  \<open>scan_immediate_trades\<close> sets the field to its parameter and \<open>scan_all_opportunities\<close>
  sets it to \<open>False\<close> for the duration of \<open>scan_and_execute\<close>, and a \<open>finally\<close> clause
  writes the saved value back. So the field takes at most the values entry, parameter (or
  \<open>False\<close>), entry; \<open>scan_and_execute\<close> sees the parameter (or \<open>False\<close>); and when the
  call ends, by returning or by raising, the bot, its executor's flag included, is as it
  was at entry. \<open>scan_arbitrage_opportunities\<close> never writes the field.
\<close>

theorem auto_execute_flag_restored_after_scan:
  "(scan_immediate_trades env b limit a w = (res, b', w', tr) \<longrightarrow>
      b' = b \<and>
      (flag_history b tr = [auto_execute (executor b)] \<or>
       flag_history b tr = [auto_execute (executor b), a, auto_execute (executor b)]) \<and>
      (\<forall>f ms l. ScanAndExecute f ms l \<in> set tr \<longrightarrow> f = a))
   \<and> (scan_all_opportunities env b limit a w = (res2, b2, w2, tr2) \<longrightarrow>
      b2 = b \<and>
      (flag_history b tr2 = [auto_execute (executor b)] \<or>
       flag_history b tr2 = [auto_execute (executor b), False, auto_execute (executor b)]) \<and>
      (\<forall>f ms l. ScanAndExecute f ms l \<in> set tr2 \<longrightarrow> \<not> f))
   \<and> (scan_arbitrage_opportunities env b limit w = (res3, b3, w3, tr3) \<longrightarrow>
      b3 = b \<and> flag_history b tr3 = [auto_execute (executor b)])"
proof (intro conjI impI)
  assume run: "scan_immediate_trades env b limit a w = (res, b', w', tr)"
  from scan_immediate_trades_frame(1) [OF run] show "b' = b" .
  from scan_immediate_trades_frame(2) [OF run]
  show "flag_history b tr = [auto_execute (executor b)] \<or>
       flag_history b tr = [auto_execute (executor b), a, auto_execute (executor b)]"
    by (simp add: flag_history_def)
  from scan_immediate_trades_frame(3) [OF run]
  show "\<forall>f ms l. ScanAndExecute f ms l \<in> set tr \<longrightarrow> f = a" by blast
next
  assume run: "scan_all_opportunities env b limit a w = (res2, b2, w2, tr2)"
  from scan_all_frame(1) [OF run] show "b2 = b" .
  from scan_all_frame(2) [OF run]
  show "flag_history b tr2 = [auto_execute (executor b)] \<or>
       flag_history b tr2 = [auto_execute (executor b), False, auto_execute (executor b)]"
    by (simp add: flag_history_def)
  from scan_all_frame(3) [OF run]
  show "\<forall>f ms l. ScanAndExecute f ms l \<in> set tr2 \<longrightarrow> \<not> f" by blast
next
  assume run: "scan_arbitrage_opportunities env b limit w = (res3, b3, w3, tr3)"
  from scan_arbitrage_frame(1) [OF run] show "b3 = b" .
  from scan_arbitrage_frame(2) [OF run]
  show "flag_history b tr3 = [auto_execute (executor b)]"
    by (simp add: flag_history_def)
qed

theorem auto_execute_flag_restored_after_scan_witness:
  "scan_immediate_trades example_env example_bot 100 True 0 =
     (Inr [trade_b, trade_a, trade_d, trade_c], example_bot, 0,
      [GetMarkets 100, SetAutoExecute True,
       ScanAndExecute True [market_liquid] 100, SetAutoExecute False])
   \<and> auto_execute (executor example_bot) = False
   \<and> flag_history example_bot [GetMarkets 100, SetAutoExecute True,
       ScanAndExecute True [market_liquid] 100, SetAutoExecute False]
      = [False, True, False]
   \<and> auto_execute (executor example_auto_bot) = True
   \<and> flag_history example_auto_bot
        (events_of (scan_all_opportunities example_env example_auto_bot 100 True 0))
      = [True, False, True]
   \<and> fst (snd (scan_all_opportunities example_env example_auto_bot 100 True 0))
      = example_auto_bot"
proof -
  note restored = auto_execute_flag_restored_after_scan
    [of example_env example_bot 100 True 0 _ example_bot 0
        "[GetMarkets 100, SetAutoExecute True,
          ScanAndExecute True [market_liquid] 100, SetAutoExecute False]",
     THEN conjunct1, rule_format, OF example_scan_immediate,
     THEN conjunct2, THEN conjunct1]
  have entry: "auto_execute (executor example_bot) = False"
    by (simp add: example_bot_def init_bot_def)
  have history: "flag_history example_bot [GetMarkets 100, SetAutoExecute True,
       ScanAndExecute True [market_liquid] 100, SetAutoExecute False]
      = [False, True, False]"
    using restored entry by (simp add: flag_history_def)
  note restored_all = auto_execute_flag_restored_after_scan
    [THEN conjunct2, THEN conjunct1, rule_format, OF example_scan_all_auto_bot]
  have same: "fst (snd (scan_all_opportunities example_env example_auto_bot 100 True 0))
      = example_auto_bot"
    using restored_all [THEN conjunct1] by (simp add: example_scan_all_auto_bot)
  have history_all: "flag_history example_auto_bot
        (events_of (scan_all_opportunities example_env example_auto_bot 100 True 0))
      = [True, False, True]"
    using restored_all [THEN conjunct2, THEN conjunct1]
    by (simp add: example_scan_all_auto_bot events_of_def flag_history_def
        example_auto_bot_limits)
  from example_scan_immediate entry history example_auto_bot_limits(3) history_all same
  show ?thesis by blast
qed

text \<open>
  The field does not keep its entry value throughout a call. With the bot the menu builds
  for automatic execution, whose flag is on, \<open>scan_all_opportunities\<close> holds the field
  at \<open>False\<close> while \<open>scan_and_execute\<close> runs; with the flag off,
  \<open>scan_immediate_trades\<close> called with auto-execute on holds it at \<open>True\<close>.
\<close>

theorem auto_execute_flag_constant_counterexample:
  "\<not> (\<forall>v \<in> set (flag_history example_auto_bot
          (events_of (scan_all_opportunities example_env example_auto_bot 100 True 0))).
        v = auto_execute (executor example_auto_bot))
   \<and> \<not> (\<forall>v \<in> set (flag_history example_bot
          (events_of (scan_immediate_trades example_env example_bot 100 True 0))).
        v = auto_execute (executor example_bot))"
  by (simp add: example_scan_all_auto_bot example_scan_immediate events_of_def
      flag_history_def example_auto_bot_limits example_bot_limits)

section \<open>The profit-per-day threshold\<close>

text \<open>
  Claim C2. Every arbitrage opportunity returned by \<open>scan_arbitrage_opportunities\<close> and
  by \<open>scan_all_opportunities\<close> has \<open>profit_per_day >= min_profit_per_day\<close>, and the
  bot applies this filter itself to what the analyzer returned: the result is the
  analyzer's list, whatever it holds, filtered by the threshold (or empty when no market
  was left to analyse).
\<close>

theorem arbitrage_results_meet_min_profit_per_day:
  "(scan_arbitrage_opportunities env b limit w = (Inr arbs, b', w', tr) \<longrightarrow>
      (\<forall>opp \<in> set arbs. min_profit_per_day b \<le> profit_per_day opp) \<and>
      (arbs = [] \<or> (\<exists>ms w1 found w2. find_opportunities env ms w1 = (Inr found, w2) \<and>
            arbs = filter (\<lambda>opp. min_profit_per_day b \<le> profit_per_day opp) found)))
   \<and> (scan_all_opportunities env b limit a w = (Inr (arbs, trades, n), b', w', tr) \<longrightarrow>
      (\<forall>opp \<in> set arbs. min_profit_per_day b \<le> profit_per_day opp) \<and>
      (arbs = [] \<or> (\<exists>ms w1 found w2. find_opportunities env ms w1 = (Inr found, w2) \<and>
            arbs = filter (\<lambda>opp. min_profit_per_day b \<le> profit_per_day opp) found)))"
proof (intro conjI impI)
  assume run: "scan_arbitrage_opportunities env b limit w = (Inr arbs, b', w', tr)"
  from scan_arbitrage_Inr [OF run]
  show shape: "arbs = [] \<or> (\<exists>ms w1 found w2. find_opportunities env ms w1 = (Inr found, w2) \<and>
            arbs = filter (\<lambda>opp. min_profit_per_day b \<le> profit_per_day opp) found)" .
  then show "\<forall>opp \<in> set arbs. min_profit_per_day b \<le> profit_per_day opp" by auto
next
  assume run: "scan_all_opportunities env b limit a w = (Inr (arbs, trades, n), b', w', tr)"
  from scan_all_Inr_arbs [OF run]
  show shape: "arbs = [] \<or> (\<exists>ms w1 found w2. find_opportunities env ms w1 = (Inr found, w2) \<and>
            arbs = filter (\<lambda>opp. min_profit_per_day b \<le> profit_per_day opp) found)" .
  then show "\<forall>opp \<in> set arbs. min_profit_per_day b \<le> profit_per_day opp" by auto
qed

theorem arbitrage_results_meet_min_profit_per_day_witness:
  "scan_arbitrage_opportunities example_env example_bot 100 0 =
     (Inr [arb_good], example_bot, 0, [GetMarkets 100, FindOpportunities [market_liquid]])
   \<and> find_opportunities example_env [market_liquid] 0 = (Inr [arb_good, arb_slow], 0)
   \<and> min_profit_per_day example_bot \<le> profit_per_day arb_good
   \<and> \<not> min_profit_per_day example_bot \<le> profit_per_day arb_slow
   \<and> fst (scan_all_opportunities example_env example_bot 100 True 0)
       = Inr ([arb_good], [trade_b, trade_a, trade_d, trade_c], 2)"
proof -
  note meets = arbitrage_results_meet_min_profit_per_day
    [of example_env example_bot 100 0 "[arb_good]" example_bot 0
        "[GetMarkets 100, FindOpportunities [market_liquid]]" True
        "[trade_b, trade_a, trade_d, trade_c]" 2, THEN conjunct1, rule_format,
     OF example_scan_arbitrage, THEN conjunct1]
  have good: "min_profit_per_day example_bot \<le> profit_per_day arb_good"
    using meets by simp
  have found: "find_opportunities example_env [market_liquid] 0 = (Inr [arb_good, arb_slow], 0)"
    by (simp add: example_env_def)
  have slow: "\<not> min_profit_per_day example_bot \<le> profit_per_day arb_slow"
    by (simp add: example_bot_def init_bot_def get_min_profit_per_day_def float_env_def
        getenv_def arb_slow_def)
  from example_scan_arbitrage example_scan_all_auto good found slow show ?thesis by simp
qed

section \<open>Automatic execution\<close>



text \<open>
  Claim C4. A scan with auto-execute off submits no order: \<open>scan_all_opportunities\<close>
  called with \<open>auto_execute = False\<close> makes no call to \<open>execute_trade\<close>, enters
  \<open>scan_and_execute\<close> with the executor's flag off, and returns an executed count of 0.
  Its whole outcome is the same whatever \<open>execute_trade\<close> would do.
\<close>

theorem scan_without_auto_execute_submits_nothing:
  assumes "scan_all_opportunities env b limit False w = (res, b', w', tr)"
  shows "attempted tr = []
       \<and> (\<forall>flag ms l. ScanAndExecute flag ms l \<in> set tr \<longrightarrow> \<not> flag)
       \<and> (\<forall>arbs trades n. res = Inr (arbs, trades, n) \<longrightarrow> n = 0)
       \<and> (\<forall>f. scan_all_opportunities (env\<lparr>execute_trade := f\<rparr>) b limit False w
               = (res, b', w', tr))"
  using assms
  by (auto simp: scan_all_opportunities_def fetch_and_filter_markets_def Let_def
      split: prod.splits sum.splits if_splits)

theorem scan_without_auto_execute_submits_nothing_witness:
  "scan_all_opportunities example_env example_bot 100 False 0 =
     (Inr ([arb_good], [trade_b, trade_a, trade_d, trade_c], 0), example_bot, 0,
      [GetMarkets 100, FindOpportunities [market_liquid], SetAutoExecute False,
       ScanAndExecute False [market_liquid] 100, SetAutoExecute False])
   \<and> attempted [GetMarkets 100, FindOpportunities [market_liquid], SetAutoExecute False,
       ScanAndExecute False [market_liquid] 100, SetAutoExecute False] = []
   \<and> scan_all_opportunities
        (example_env\<lparr>execute_trade := \<lambda>ex opp w. (Inl (Raised ''unreachable''), w)\<rparr>)
        example_bot 100 False 0
      = scan_all_opportunities example_env example_bot 100 False 0
   \<and> auto_execute (executor example_auto_bot) = True
   \<and> scan_all_opportunities example_env example_auto_bot 100 False 0 =
     (Inr ([arb_good], [trade_b, trade_a, trade_d, trade_c], 0), example_auto_bot, 0,
      [GetMarkets 100, FindOpportunities [market_liquid], SetAutoExecute False,
       ScanAndExecute False [market_liquid] 100, SetAutoExecute True])
   \<and> attempted [GetMarkets 100, FindOpportunities [market_liquid], SetAutoExecute False,
       ScanAndExecute False [market_liquid] 100, SetAutoExecute True] = []"
proof -
  note forced = scan_without_auto_execute_submits_nothing
    [OF example_scan_all_manual_auto_bot, THEN conjunct1]
  note manual = scan_without_auto_execute_submits_nothing [OF example_scan_all_manual]
  have none: "attempted [GetMarkets 100, FindOpportunities [market_liquid],
       SetAutoExecute False, ScanAndExecute False [market_liquid] 100, SetAutoExecute False]
       = []"
    using manual [THEN conjunct1] .
  have same: "scan_all_opportunities
        (example_env\<lparr>execute_trade := \<lambda>ex opp w. (Inl (Raised ''unreachable''), w)\<rparr>)
        example_bot 100 False 0
      = scan_all_opportunities example_env example_bot 100 False 0"
    using manual [THEN conjunct2, THEN conjunct2, THEN conjunct2] example_scan_all_manual
    by simp
  from example_scan_all_manual none same example_auto_bot_limits(3)
    example_scan_all_manual_auto_bot forced
  show ?thesis by blast
qed

section \<open>The liquidity filter\<close>

text \<open>
  Claim C6, as amended. For every list of market dicts whose liquidity values, where
  present, are numbers, \<open>filter_markets_by_liquidity\<close> returns exactly, and in their
  order, the markets whose liquidity, a missing field read as 0, is at least
  \<open>min_liquidity\<close> and which have at least one tradeable side. When \<open>min_liquidity\<close> is
  positive, every market it returns has a liquidity field. A detector that a scan of
  these markets invokes receives that list and nothing else, so it receives no market
  with liquidity below \<open>min_liquidity\<close>.
\<close>

theorem filter_markets_by_liquidity_exact:
  assumes "\<forall>m \<in> set markets. as_number (dict_get_default m ''liquidity'' (PInt 0)) \<noteq> None"
  shows "\<exists>kept. filter_markets_by_liquidity b markets = Inr kept
     \<and> kept = filter (\<lambda>m.
           (\<exists>x. as_number (dict_get_default m ''liquidity'' (PInt 0)) = Some x
                \<and> of_int (min_liquidity b) \<le> x)
           \<and> has_tradeable_liquidity m) markets
     \<and> (0 < min_liquidity b \<longrightarrow> (\<forall>m \<in> set kept. map_of m ''liquidity'' \<noteq> None))
     \<and> (\<forall>env limit w a ms.
           fst (get_markets env limit w) = markets \<and>
           (ms \<in> set (detector_inputs (events_of (scan_all_opportunities env b limit a w))) \<or>
            ms \<in> set (detector_inputs (events_of (scan_immediate_trades env b limit a w))) \<or>
            ms \<in> set (detector_inputs (events_of (scan_arbitrage_opportunities env b limit w))))
           \<longrightarrow> ms = kept)"
proof -
  from filter_markets_by_liquidity_numeric [OF assms]
  obtain kept where kept: "filter_markets_by_liquidity b markets = Inr kept" by blast
  from filter_markets_by_liquidity_Inr [OF kept]
  have exact: "kept = filter (\<lambda>m.
           (\<exists>x. as_number (dict_get_default m ''liquidity'' (PInt 0)) = Some x
                \<and> of_int (min_liquidity b) \<le> x)
           \<and> has_tradeable_liquidity m) markets"
    by (simp add: py_ge_True_iff)
  have present: "0 < min_liquidity b \<longrightarrow> (\<forall>m \<in> set kept. map_of m ''liquidity'' \<noteq> None)"
    unfolding exact by (auto simp: dict_get_default_def split: option.splits)
  have received: "\<forall>env limit w a ms.
           fst (get_markets env limit w) = markets \<and>
           (ms \<in> set (detector_inputs (events_of (scan_all_opportunities env b limit a w))) \<or>
            ms \<in> set (detector_inputs (events_of (scan_immediate_trades env b limit a w))) \<or>
            ms \<in> set (detector_inputs (events_of (scan_arbitrage_opportunities env b limit w))))
           \<longrightarrow> ms = kept"
    using kept by (auto dest!: detector_inputs_filtered)
  from kept exact present received show ?thesis
    by (intro exI [of _ kept] conjI)
qed

theorem filter_markets_by_liquidity_exact_witness:
  "as_number (dict_get_default market_missing ''liquidity'' (PInt 0)) = Some 0
   \<and> as_number (dict_get_default market_liquid ''liquidity'' (PInt 0)) = Some 20000
   \<and> as_number (dict_get_default market_flat ''liquidity'' (PInt 0)) = Some 50000
   \<and> as_number (dict_get_default market_thin ''liquidity'' (PInt 0)) = Some 500
   \<and> min_liquidity example_bot = 10000
   \<and> filter_markets_by_liquidity example_bot
        [market_missing, market_liquid, market_flat, market_thin] = Inr [market_liquid]
   \<and> map_of market_liquid ''liquidity'' = Some (PInt 20000)"
proof -
  have numbers:
    "as_number (dict_get_default market_missing ''liquidity'' (PInt 0)) = Some 0"
    "as_number (dict_get_default market_liquid ''liquidity'' (PInt 0)) = Some 20000"
    "as_number (dict_get_default market_flat ''liquidity'' (PInt 0)) = Some 50000"
    "as_number (dict_get_default market_thin ''liquidity'' (PInt 0)) = Some 500"
    by (simp_all add: dict_get_default_def market_liquid_def market_missing_def
        market_flat_def market_thin_def)
  then have numeric: "\<forall>m \<in> set [market_missing, market_liquid, market_flat, market_thin].
      as_number (dict_get_default m ''liquidity'' (PInt 0)) \<noteq> None"
    by simp
  from filter_markets_by_liquidity_exact [OF numeric, of example_bot]
  obtain kept where kept: "filter_markets_by_liquidity example_bot
        [market_missing, market_liquid, market_flat, market_thin] = Inr kept"
    and present: "0 < min_liquidity example_bot \<longrightarrow>
        (\<forall>m \<in> set kept. map_of m ''liquidity'' \<noteq> None)"
    by (elim exE conjE)
  from kept example_filter have "kept = [market_liquid]" by simp
  with present have "map_of market_liquid ''liquidity'' \<noteq> None"
    by (simp add: example_bot_limits)
  then have field: "map_of market_liquid ''liquidity'' = Some (PInt 20000)"
    by (simp add: market_liquid_def)
  from numbers example_bot_limits(4) example_filter field show ?thesis by simp
qed

text \<open>
  A liquidity that is not a number is not read as 0: with a JSON null the comparison
  raises \<open>TypeError\<close> and no market of the list is returned. And with \<open>min_liquidity\<close>
  set to 0, a market without a liquidity field passes the filter.
\<close>

theorem malformed_liquidity_counterexample:
  "dict_get_default market_null ''liquidity'' (PInt 0) = PNone
   \<and> filter_markets_by_liquidity example_bot [market_null, market_liquid] = Inl TypeError
   \<and> map_of market_missing ''liquidity'' = None
   \<and> filter_markets_by_liquidity (example_bot\<lparr>min_liquidity := 0\<rparr>) [market_missing]
       = Inr [market_missing]"
  by (simp add: example_bot_limits py_ge_def dict_get_def dict_get_default_def
      has_tradeable_liquidity_def market_null_def market_liquid_def market_missing_def)

text \<open>
  Claim C10. A side counts as tradeable exactly when its bid and its ask are both present
  and unequal, and a market is tradeable when one of its two sides is. A market none of
  whose sides is tradeable, so one whose present sides all quote bid equal to ask, is
  in no list that \<open>filter_markets_by_liquidity\<close> returns, whatever its liquidity, and in
  no list of markets that a scan passes to the analyzer or to \<open>scan_and_execute\<close>.
\<close>

theorem flat_quotes_excluded_from_scanning:
  "(has_tradeable_liquidity m \<longleftrightarrow>
      (dict_get m ''yes_bid'' \<noteq> PNone \<and> dict_get m ''yes_ask'' \<noteq> PNone \<and>
         py_ne (dict_get m ''yes_bid'') (dict_get m ''yes_ask'')) \<or>
      (dict_get m ''no_bid'' \<noteq> PNone \<and> dict_get m ''no_ask'' \<noteq> PNone \<and>
         py_ne (dict_get m ''no_bid'') (dict_get m ''no_ask'')))
   \<and> (\<not> has_tradeable_liquidity m \<longrightarrow>
        (\<forall>kept. filter_markets_by_liquidity b markets = Inr kept \<longrightarrow> m \<notin> set kept) \<and>
        (\<forall>ms. ms \<in> set (detector_inputs (events_of (scan_all_opportunities env b limit a w))) \<or>
              ms \<in> set (detector_inputs (events_of (scan_immediate_trades env b limit a w))) \<or>
              ms \<in> set (detector_inputs (events_of (scan_arbitrage_opportunities env b limit w)))
              \<longrightarrow> m \<notin> set ms))"
proof (intro conjI impI allI)
  show "has_tradeable_liquidity m \<longleftrightarrow>
      (dict_get m ''yes_bid'' \<noteq> PNone \<and> dict_get m ''yes_ask'' \<noteq> PNone \<and>
         py_ne (dict_get m ''yes_bid'') (dict_get m ''yes_ask'')) \<or>
      (dict_get m ''no_bid'' \<noteq> PNone \<and> dict_get m ''no_ask'' \<noteq> PNone \<and>
         py_ne (dict_get m ''no_bid'') (dict_get m ''no_ask''))"
    by (simp add: has_tradeable_liquidity_def Let_def)
next
  fix kept
  assume flat: "\<not> has_tradeable_liquidity m"
    and kept: "filter_markets_by_liquidity b markets = Inr kept"
  from filter_markets_by_liquidity_Inr [OF kept] flat show "m \<notin> set kept" by simp
next
  fix ms
  assume flat: "\<not> has_tradeable_liquidity m"
    and received:
      "ms \<in> set (detector_inputs (events_of (scan_all_opportunities env b limit a w))) \<or>
       ms \<in> set (detector_inputs (events_of (scan_immediate_trades env b limit a w))) \<or>
       ms \<in> set (detector_inputs (events_of (scan_arbitrage_opportunities env b limit w)))"
  from detector_inputs_filtered [OF received]
  have "filter_markets_by_liquidity b (fst (get_markets env limit w)) = Inr ms" .
  from filter_markets_by_liquidity_Inr [OF this] flat show "m \<notin> set ms" by simp
qed

theorem flat_quotes_excluded_from_scanning_witness:
  "dict_get market_flat ''yes_bid'' = PInt 50 \<and> dict_get market_flat ''yes_ask'' = PInt 50
   \<and> dict_get market_flat ''no_bid'' = PInt 50 \<and> dict_get market_flat ''no_ask'' = PInt 50
   \<and> py_ge (dict_get_default market_flat ''liquidity'' (PInt 0)) (min_liquidity example_bot)
        = Inr True
   \<and> \<not> has_tradeable_liquidity market_flat
   \<and> filter_markets_by_liquidity example_bot [market_liquid, market_thin, market_flat]
        = Inr [market_liquid]
   \<and> market_flat \<notin> set [market_liquid]
   \<and> detector_inputs (events_of (scan_all_opportunities example_env example_bot 100 True 0))
        = [[market_liquid], [market_liquid]]"
proof -
  note excluded = flat_quotes_excluded_from_scanning
    [of market_flat example_bot "[market_liquid, market_thin, market_flat]"
        example_env 100 True 0]
  have quotes:
    "dict_get market_flat ''yes_bid'' = PInt 50" "dict_get market_flat ''yes_ask'' = PInt 50"
    "dict_get market_flat ''no_bid'' = PInt 50" "dict_get market_flat ''no_ask'' = PInt 50"
    by (simp_all add: dict_get_def market_flat_def)
  have liquid: "py_ge (dict_get_default market_flat ''liquidity'' (PInt 0))
      (min_liquidity example_bot) = Inr True"
    by (simp add: py_ge_def dict_get_default_def market_flat_def example_bot_limits)
  from excluded [THEN conjunct1] quotes have flat: "\<not> has_tradeable_liquidity market_flat"
    by simp
  from excluded [THEN conjunct2, rule_format, OF flat, THEN conjunct1, rule_format,
      OF example_filter_fetched]
  have out: "market_flat \<notin> set [market_liquid]" .
  have inputs: "detector_inputs
      (events_of (scan_all_opportunities example_env example_bot 100 True 0))
        = [[market_liquid], [market_liquid]]"
    by (simp add: example_scan_all_auto events_of_def)
  from quotes liquid flat example_filter_fetched out inputs show ?thesis by blast
qed

section \<open>A failed market request\<close>

text \<open>
  Claim C7. When the client returns the empty sequence, each scan ends without raising:
  \<open>scan_all_opportunities\<close> returns \<open>([], [], 0)\<close>, the two other scans return \<open>[]\<close>,
  the bot is unchanged, and the request for the markets is the only call made: no
  detector is invoked and no order is submitted.
\<close>

theorem empty_market_data_scans_return_empty:
  assumes "get_markets env limit w = ([], w1)"
  shows "scan_all_opportunities env b limit a w = (Inr ([], [], 0), b, w1, [GetMarkets limit])
       \<and> scan_arbitrage_opportunities env b limit w = (Inr [], b, w1, [GetMarkets limit])
       \<and> scan_immediate_trades env b limit a w = (Inr [], b, w1, [GetMarkets limit])"
  using assms
  by (simp add: scan_all_opportunities_def scan_arbitrage_opportunities_def
      scan_immediate_trades_def fetch_and_filter_markets_def)

theorem empty_market_data_scans_return_empty_witness:
  "get_markets failing_env 100 0 = ([], 0)
   \<and> scan_all_opportunities failing_env example_bot 100 True 0
       = (Inr ([], [], 0), example_bot, 0, [GetMarkets 100])
   \<and> scan_arbitrage_opportunities failing_env example_bot 100 0
       = (Inr [], example_bot, 0, [GetMarkets 100])
   \<and> scan_immediate_trades failing_env example_bot 100 True 0
       = (Inr [], example_bot, 0, [GetMarkets 100])"
proof -
  have empty: "get_markets failing_env 100 0 = ([], 0)"
    by (simp add: failing_env_def)
  from empty empty_market_data_scans_return_empty [OF empty, of example_bot True]
  show ?thesis by simp
qed

section \<open>The limits after construction\<close>

text \<open>
  Claim C8, as amended. Over any sequence of operations on a constructed bot (the three
  scans and the settings handler), \<open>max_position_size\<close>, \<open>min_profit_cents\<close> and
  \<open>min_profit_per_day\<close> keep the values they had at construction; \<open>min_liquidity\<close>
  keeps its value as long as the settings handler is not among the operations.
\<close>

theorem limits_preserved_by_operations:
  assumes "run_operations env ops (b, w) = (b', w')"
  shows "min_profit_cents (executor b') = min_profit_cents (executor b)
       \<and> max_position_size (executor b') = max_position_size (executor b)
       \<and> min_profit_per_day b' = min_profit_per_day b
       \<and> ((\<forall>op \<in> set ops. \<not> is_configure op) \<longrightarrow> min_liquidity b' = min_liquidity b)"
  using run_operations_limits [OF assms] by blast

theorem limits_preserved_by_operations_witness:
  "run_operations example_env [ScanAll 100 True, ScanImmediate 100 True, ScanArbitrage 100]
      (example_bot, 0) = (example_bot, 3)
   \<and> \<not> is_configure (ScanAll 100 True) \<and> \<not> is_configure (ScanImmediate 100 True)
   \<and> \<not> is_configure (ScanArbitrage 100)
   \<and> min_liquidity example_bot = 10000
   \<and> min_profit_cents (executor (fst (run_operations example_env
        [ConfigureSettings (Some 5000), ScanAll 100 True] (example_bot, 0)))) = 2
   \<and> max_position_size (executor (fst (run_operations example_env
        [ConfigureSettings (Some 5000), ScanAll 100 True] (example_bot, 0)))) = 1000
   \<and> min_profit_per_day (fst (run_operations example_env
        [ConfigureSettings (Some 5000), ScanAll 100 True] (example_bot, 0))) = 1 / 10"
proof -
  have limits: "min_profit_cents (executor example_bot) = 2"
    "max_position_size (executor example_bot) = 1000"
    "min_profit_per_day example_bot = 1 / 10"
    "min_liquidity example_bot = 10000"
    by (rule example_bot_limits)+
  obtain b' w' where session: "run_operations example_env
        [ConfigureSettings (Some 5000), ScanAll 100 True] (example_bot, 0) = (b', w')"
    by (cases "run_operations example_env
        [ConfigureSettings (Some 5000), ScanAll 100 True] (example_bot, 0)")
  from limits_preserved_by_operations [OF session] limits session
  have configured: "min_profit_cents (executor (fst (run_operations example_env
        [ConfigureSettings (Some 5000), ScanAll 100 True] (example_bot, 0)))) = 2"
    "max_position_size (executor (fst (run_operations example_env
        [ConfigureSettings (Some 5000), ScanAll 100 True] (example_bot, 0)))) = 1000"
    "min_profit_per_day (fst (run_operations example_env
        [ConfigureSettings (Some 5000), ScanAll 100 True] (example_bot, 0))) = 1 / 10"
    by simp_all
  from limits_preserved_by_operations [OF example_session] example_session limits configured
  show ?thesis by simp
qed

text \<open>
  \<open>min_liquidity\<close> is not read-only: the settings handler overwrites it with the amount
  typed at the prompt, in cents. Typing 50 gives the double \<open>50.0 * 100 = 5000.0\<close>, and
  the limit of 10000 becomes 5000.
\<close>

theorem limits_read_only_counterexample:
  "min_liquidity example_bot = 10000
   \<and> min_liquidity (fst (run_operation example_env (ConfigureSettings (Some 5000)) (example_bot, 0)))
       = 5000"
  by (simp add: handle_configure_settings_def py_int_of_float_def example_bot_limits)

section \<open>Configuration defaults\<close>

text \<open>
  Claim C9. When the corresponding environment variable is unset, each configuration
  getter returns its documented default: 2 for \<open>get_min_profit_cents\<close>, 1000 for
  \<open>get_max_position_size\<close>, 0.10 for \<open>get_min_profit_per_day\<close>, 10000 for
  \<open>get_min_liquidity\<close> and 0.1 for \<open>get_api_min_interval\<close>, whatever \<open>int\<close> and
  \<open>float\<close> would parse.
\<close>

theorem config_defaults_when_unset:
  assumes "getenv env ''MIN_PROFIT_CENTS'' = None"
      and "getenv env ''MAX_POSITION_SIZE'' = None"
      and "getenv env ''MIN_PROFIT_PER_DAY'' = None"
      and "getenv env ''MIN_LIQUIDITY'' = None"
      and "getenv env ''API_MIN_INTERVAL'' = None"
  shows "get_min_profit_cents py_int env = 2
       \<and> get_max_position_size py_int env = 1000
       \<and> get_min_profit_per_day py_float env = 0.10
       \<and> get_min_liquidity py_int env = 10000
       \<and> get_api_min_interval py_float env = 0.1"
  using assms
  by (simp add: get_min_profit_cents_def get_max_position_size_def get_min_profit_per_day_def
      get_min_liquidity_def get_api_min_interval_def int_env_def float_env_def)

theorem config_defaults_when_unset_witness:
  "getenv [(''KALSHI_API_KEY'', ''key-id'')] ''MIN_PROFIT_CENTS'' = None
     \<and> getenv [(''KALSHI_API_KEY'', ''key-id'')] ''MIN_LIQUIDITY'' = None
     \<and> get_min_profit_cents (\<lambda>raw. Some 7) [(''KALSHI_API_KEY'', ''key-id'')] = 2
     \<and> get_max_position_size (\<lambda>raw. Some 7) [(''KALSHI_API_KEY'', ''key-id'')] = 1000
     \<and> get_min_profit_per_day (\<lambda>raw. Some 7) [(''KALSHI_API_KEY'', ''key-id'')] = 0.10
     \<and> get_min_liquidity (\<lambda>raw. Some 7) [(''KALSHI_API_KEY'', ''key-id'')] = 10000
     \<and> get_api_min_interval (\<lambda>raw. Some 7) [(''KALSHI_API_KEY'', ''key-id'')] = 0.1"
  using config_defaults_when_unset
    [of "[(''KALSHI_API_KEY'', ''key-id'')]" "\<lambda>raw. Some 7" "\<lambda>raw. Some 7"]
  by (simp add: getenv_def)

end
